theory Spec2Isabelle
  imports Main
begin

section \<open>JavaScript values and the object heap\<close>

text \<open>
  The merge utility \<^verbatim>\<open>$.extendext\<close> works on JavaScript references: it compares them
  with \<^verbatim>\<open>===\<close>, mutates the objects behind them and returns one of them. The model
  therefore keeps an explicit heap. A value is a primitive or a reference into the heap;
  an object on the heap has a kind (what \<^verbatim>\<open>typeof\<close>, \<^verbatim>\<open>$.isArray\<close>, \<^verbatim>\<open>$.isPlainObject\<close>
  and \<^verbatim>\<open>$.isFunction\<close> tell apart), its index-keyed properties and its other own
  enumerable properties in creation order.

  Numbers are integers here (no NaN, no fractions). A property key is an array index or
  a name; a name is never the decimal form of an index and never the name of a built-in
  or inherited property. Only own enumerable properties exist: no prototype of an object
  in the heap carries an enumerable property, and no object is frozen or has accessors.
  The kinds are the plain objects (made by \<^verbatim>\<open>{}\<close> or \<^verbatim>\<open>new Object\<close>), the arrays, the
  functions, and every other object (\<open>Exotic\<close>: dates, class instances, DOM nodes), for
  which \<^verbatim>\<open>typeof\<close> is \<^verbatim>\<open>'object'\<close> and \<^verbatim>\<open>$.isPlainObject\<close> is false.

  An address is an index into the heap. A reference of a running program always points
  to an object that exists; \<open>wf_heap\<close> below says so, and the theorems that depend on it
  assume it.
\<close>

type_synonym addr = nat

datatype val = Undefined | Null | Bool bool | Num int | Str string | Ref addr

datatype key = Idx nat | Name string

datatype kind = PlainObject | Array | Function | Exotic

text \<open>
  \<open>elems\<close> holds the index-keyed properties: position \<open>i\<close> is \<open>None\<close> for a hole.
  For an array, \<open>length (elems o)\<close> is its \<^verbatim>\<open>length\<close> property.
\<close>

datatype obj = Obj (kind: kind) (elems: "val option list") (named: "(string \<times> val) list")

type_synonym heap = "obj list"

datatype error = TypeError

text \<open>
  A call either exhausts the recursion depth it was given, throws, or returns.
\<close>

datatype 'a outcome = OutOfFuel | Raise error | Return 'a

fun andThen :: "'a outcome \<Rightarrow> ('a \<Rightarrow> 'b outcome) \<Rightarrow> 'b outcome" where
  "andThen OutOfFuel f = OutOfFuel"
| "andThen (Raise e) f = Raise e"
| "andThen (Return x) f = f x"

definition empty_object :: obj where
  "empty_object = Obj PlainObject [] []"

definition empty_array :: obj where
  "empty_array = Obj Array [] []"

text \<open>Evaluating an object or array literal: a new object at the next free address.\<close>

definition alloc :: "heap \<Rightarrow> obj \<Rightarrow> val \<times> heap" where
  "alloc h ob = (Ref (length h), h @ [ob])"

fun truthy :: "val \<Rightarrow> bool" where
  "truthy Undefined = False"
| "truthy Null = False"
| "truthy (Bool b) = b"
| "truthy (Num n) = (n \<noteq> 0)"
| "truthy (Str s) = (s \<noteq> [])"
| "truthy (Ref a) = True"

fun typeof :: "heap \<Rightarrow> val \<Rightarrow> string" where
  "typeof h Undefined = ''undefined''"
| "typeof h Null = ''object''"
| "typeof h (Bool b) = ''boolean''"
| "typeof h (Num n) = ''number''"
| "typeof h (Str s) = ''string''"
| "typeof h (Ref a) = (if kind (h ! a) = Function then ''function'' else ''object'')"

fun has_kind :: "kind \<Rightarrow> heap \<Rightarrow> val \<Rightarrow> bool" where
  "has_kind k h (Ref a) = (kind (h ! a) = k)"
| "has_kind k h v = False"

definition isArray :: "heap \<Rightarrow> val \<Rightarrow> bool" where
  "isArray = has_kind Array"

definition isPlainObject :: "heap \<Rightarrow> val \<Rightarrow> bool" where
  "isPlainObject = has_kind PlainObject"

definition isFunction :: "heap \<Rightarrow> val \<Rightarrow> bool" where
  "isFunction = has_kind Function"

subsection \<open>Property access\<close>

definition get_index :: "val option list \<Rightarrow> nat \<Rightarrow> val" where
  "get_index es i = (if i < length es then (case es ! i of None \<Rightarrow> Undefined | Some v \<Rightarrow> v) else Undefined)"

text \<open>Writing past the end of an array extends it, leaving holes in between.\<close>

definition set_index :: "val option list \<Rightarrow> nat \<Rightarrow> val \<Rightarrow> val option list" where
  "set_index es i v = (es @ replicate (Suc i - length es) None)[i := Some v]"

definition get_named :: "(string \<times> val) list \<Rightarrow> string \<Rightarrow> val" where
  "get_named ps s = (case map_of ps s of None \<Rightarrow> Undefined | Some v \<Rightarrow> v)"

fun set_named :: "(string \<times> val) list \<Rightarrow> string \<Rightarrow> val \<Rightarrow> (string \<times> val) list" where
  "set_named [] s v = [(s, v)]"
| "set_named ((s', v') # ps) s v =
     (if s' = s then (s, v) # ps else (s', v') # set_named ps s v)"

fun obj_get :: "obj \<Rightarrow> key \<Rightarrow> val" where
  "obj_get ob (Idx i) = get_index (elems ob) i"
| "obj_get ob (Name s) = get_named (named ob) s"

fun obj_set :: "obj \<Rightarrow> key \<Rightarrow> val \<Rightarrow> obj" where
  "obj_set ob (Idx i) v = Obj (kind ob) (set_index (elems ob) i v) (named ob)"
| "obj_set ob (Name s) v = Obj (kind ob) (elems ob) (set_named (named ob) s v)"

text \<open>
  \<^verbatim>\<open>base[name]\<close> as an expression. Reading a property of \<^verbatim>\<open>undefined\<close> or \<^verbatim>\<open>null\<close>
  throws; a string has its characters at the indices; other primitives have no own
  property.
\<close>

fun get_prop :: "heap \<Rightarrow> val \<Rightarrow> key \<Rightarrow> val outcome" where
  "get_prop h Undefined k = Raise TypeError"
| "get_prop h Null k = Raise TypeError"
| "get_prop h (Ref a) k = Return (obj_get (h ! a) k)"
| "get_prop h (Str s) (Idx i) = Return (if i < length s then Str [s ! i] else Undefined)"
| "get_prop h v k = Return Undefined"

text \<open>
  \<^verbatim>\<open>base[name] = v\<close>. The source is in strict mode, where assigning to a property of
  a primitive throws as it does for \<^verbatim>\<open>undefined\<close> and \<^verbatim>\<open>null\<close>.
\<close>

fun set_prop :: "heap \<Rightarrow> val \<Rightarrow> key \<Rightarrow> val \<Rightarrow> heap outcome" where
  "set_prop h (Ref a) k v = Return (h[a := obj_set (h ! a) k v])"
| "set_prop h base k v = Raise TypeError"

text \<open>
  The keys a \<^verbatim>\<open>for (name in options)\<close> loop visits: the indices in ascending order,
  then the names in creation order; the characters' indices for a string; none for the
  other primitives (nor for \<^verbatim>\<open>undefined\<close> and \<^verbatim>\<open>null\<close>, over which the loop runs zero
  times). The keys are fixed when the loop starts; the values are read as the loop runs.
\<close>

definition own_keys :: "obj \<Rightarrow> key list" where
  "own_keys ob =
     map Idx (filter (\<lambda>i. elems ob ! i \<noteq> None) [0..<length (elems ob)]) @
     map (\<lambda>p. Name (fst p)) (named ob)"

fun for_in_keys :: "heap \<Rightarrow> val \<Rightarrow> key list" where
  "for_in_keys h (Ref a) = own_keys (h ! a)"
| "for_in_keys h (Str s) = map Idx [0..<length s]"
| "for_in_keys h v = []"

subsection \<open>Array methods\<close>

text \<open>
  The array methods exist on arrays only: calling one on anything else throws (the method
  is \<^verbatim>\<open>undefined\<close> there, or the receiver is).
\<close>

text \<open>\<^verbatim>\<open>clone.indexOf(e)\<close>: strict equality, holes are skipped, \<open>-1\<close> when absent.\<close>

fun indexOf_from :: "nat \<Rightarrow> val option list \<Rightarrow> val \<Rightarrow> int" where
  "indexOf_from i [] e = -1"
| "indexOf_from i (x # xs) e = (if x = Some e then int i else indexOf_from (Suc i) xs e)"

fun indexOf :: "heap \<Rightarrow> val \<Rightarrow> val \<Rightarrow> int outcome" where
  "indexOf h (Ref a) e =
     (if kind (h ! a) = Array then Return (indexOf_from 0 (elems (h ! a)) e) else Raise TypeError)"
| "indexOf h v e = Raise TypeError"

text \<open>\<^verbatim>\<open>clone.push(e)\<close>.\<close>

fun push :: "heap \<Rightarrow> val \<Rightarrow> val \<Rightarrow> heap outcome" where
  "push h (Ref a) e =
     (if kind (h ! a) = Array
      then Return (h[a := Obj Array (elems (h ! a) @ [Some e]) (named (h ! a))])
      else Raise TypeError)"
| "push h v e = Raise TypeError"

text \<open>
  \<^verbatim>\<open>clone.concat(x)\<close>: a new array holding the elements of \<open>clone\<close>, then the elements
  of \<open>x\<close> when \<open>x\<close> is an array and \<open>x\<close> itself as one element otherwise.
\<close>

definition spread :: "heap \<Rightarrow> val \<Rightarrow> val option list" where
  "spread h x = (case x of Ref b \<Rightarrow> if kind (h ! b) = Array then elems (h ! b) else [Some x]
                         | _ \<Rightarrow> [Some x])"

fun concat_array :: "heap \<Rightarrow> val \<Rightarrow> val \<Rightarrow> (val \<times> heap) outcome" where
  "concat_array h (Ref a) x =
     (if kind (h ! a) = Array
      then Return (alloc h (Obj Array (elems (h ! a) @ spread h x) []))
      else Raise TypeError)"
| "concat_array h v x = Raise TypeError"

text \<open>
  \<^verbatim>\<open>options.forEach(function(e, i) {...})\<close>: the indices below the length the array had
  when the call started, in order; an index that holds no element when its turn comes is
  skipped.
\<close>

fun forEach_indices ::
  "(val \<Rightarrow> nat \<Rightarrow> heap \<Rightarrow> heap outcome) \<Rightarrow> addr \<Rightarrow> nat list \<Rightarrow> heap \<Rightarrow> heap outcome" where
  "forEach_indices callback a [] h = Return h"
| "forEach_indices callback a (i # rest) h =
     (if i < length (elems (h ! a))
      then (case elems (h ! a) ! i of
              None \<Rightarrow> forEach_indices callback a rest h
            | Some e \<Rightarrow> andThen (callback e i h) (forEach_indices callback a rest))
      else forEach_indices callback a rest h)"

fun forEach :: "(val \<Rightarrow> nat \<Rightarrow> heap \<Rightarrow> heap outcome) \<Rightarrow> val \<Rightarrow> heap \<Rightarrow> heap outcome" where
  "forEach callback (Ref a) h =
     (if kind (h ! a) = Array
      then forEach_indices callback a [0..<length (elems (h ! a))] h
      else Raise TypeError)"
| "forEach callback v h = Raise TypeError"

subsection \<open>Strings\<close>

definition lower_char :: "char \<Rightarrow> char" where
  "lower_char c =
     (case map_of (zip ''ABCDEFGHIJKLMNOPQRSTUVWXYZ'' ''abcdefghijklmnopqrstuvwxyz'') c of
        None \<Rightarrow> c
      | Some l \<Rightarrow> l)"

text \<open>\<^verbatim>\<open>s.toLowerCase()\<close> on the ASCII letters.\<close>

definition toLowerCase :: "string \<Rightarrow> string" where
  "toLowerCase s = map lower_char s"

section \<open>The merge\<close>

subsection \<open>The plain key/value merge\<close>

text \<open>
  One turn of the loop \<^verbatim>\<open>for ( name in options )\<close> of \<^verbatim>\<open>$.extendext\<close>. The recursive call
  is the parameter \<open>recur\<close>, given the working clone and the source's value.
  \<^verbatim>\<open>copyIsArray\<close> is set only after \<^verbatim>\<open>$.isPlainObject(copy)\<close> has failed and is reset
  once it is read, so it is true exactly when \<open>copy\<close> is an array.
\<close>

definition merge_key ::
  "(val \<Rightarrow> val \<Rightarrow> heap \<Rightarrow> (val \<times> heap) outcome) \<Rightarrow> bool \<Rightarrow> val \<Rightarrow> val \<Rightarrow> key \<Rightarrow> heap \<Rightarrow> heap outcome" where
  "merge_key recur deep target options name h =
     andThen (get_prop h target name) (\<lambda>src.
     andThen (get_prop h options name) (\<lambda>copy.
       if target = copy then Return h
       else if deep \<and> truthy copy \<and> (isPlainObject h copy \<or> isArray h copy) then
         (case (if isArray h copy
                then (if truthy src \<and> isArray h src then (src, h) else alloc h empty_array)
                else (if truthy src \<and> isPlainObject h src then (src, h) else alloc h empty_object))
          of (clone, h1) \<Rightarrow>
            andThen (recur clone copy h1) (\<lambda>(r, h2). set_prop h2 target name r))
       else if copy \<noteq> Undefined then set_prop h target name copy
       else Return h))"

fun merge_keys ::
  "(val \<Rightarrow> val \<Rightarrow> heap \<Rightarrow> (val \<times> heap) outcome) \<Rightarrow> bool \<Rightarrow> val \<Rightarrow> val \<Rightarrow> key list \<Rightarrow> heap \<Rightarrow> heap outcome" where
  "merge_keys recur deep target options [] h = Return h"
| "merge_keys recur deep target options (name # names) h =
     andThen (merge_key recur deep target options name h)
       (merge_keys recur deep target options names)"

subsection \<open>jQuery.extend\<close>

text \<open>
  Modelled from the spec: \<^verbatim>\<open>$.extend\<close> is the jQuery library's own function, which the
  sources of this repository call and do not contain. The spec gives what
  \<^verbatim>\<open>$.extend( deep, [], options )\<close> produces, a cloned copy of the source: "when deep=true,
  nested object/array elements are recursively copied; when deep=false, elements are
  shallow-copied by reference". \<^verbatim>\<open>$.extendext\<close> is declared "Based on jQuery.extend": the
  copy runs the same key loop, without array modes. The first argument is the recursion
  depth left. jQuery does not support \<^verbatim>\<open>false\<close> as the first argument of \<^verbatim>\<open>$.extend\<close>; every
  evaluation of the copy in the claims below is one with \<open>deep = true\<close>.
\<close>

primrec jQuery_extend :: "nat \<Rightarrow> bool \<Rightarrow> val \<Rightarrow> val \<Rightarrow> heap \<Rightarrow> (val \<times> heap) outcome" where
  "jQuery_extend 0 = (\<lambda>deep target options h. OutOfFuel)"
| "jQuery_extend (Suc n) = (\<lambda>deep target options h.
     andThen (merge_keys (jQuery_extend n deep) deep target options (for_in_keys h options) h)
       (\<lambda>h'. Return (target, h')))"

subsection \<open>jQuery.extendext\<close>

text \<open>\<^verbatim>\<open>arguments[k]\<close>: \<^verbatim>\<open>undefined\<close> past the last argument.\<close>

definition arg :: "val list \<Rightarrow> nat \<Rightarrow> val" where
  "arg args k = (if k < length args then args ! k else Undefined)"

text \<open>\<^verbatim>\<open>v || {}\<close>: the object literal is evaluated only when \<open>v\<close> is falsy.\<close>

definition or_empty_object :: "val \<Rightarrow> heap \<Rightarrow> val \<times> heap" where
  "or_empty_object v h = (if truthy v then (v, h) else alloc h empty_object)"

definition array_modes :: "string list" where
  "array_modes = [''default'', ''concat'', ''replace'', ''extend'']"

text \<open>
  \<^verbatim>\<open>$([target.toLowerCase(), 'default']).filter(['default','concat','replace','extend'])[0]\<close>:
  jQuery's \<^verbatim>\<open>filter\<close> with an array keeps the members that are in the array, in order.
  The list is never empty, since \<^verbatim>\<open>'default'\<close> is always kept.
\<close>

definition array_mode_of :: "string \<Rightarrow> string" where
  "array_mode_of s = hd (filter (\<lambda>m. m \<in> set array_modes) [toLowerCase s, ''default''])"

text \<open>
  The callback of \<^verbatim>\<open>options.forEach\<close> in array mode \<^verbatim>\<open>'extend'\<close>. The recursive call
  \<^verbatim>\<open>$.extendext( deep, arrayMode, clone[i] || type, e )\<close> is the parameter \<open>recur\<close>, given its
  argument list.
\<close>

definition extend_element ::
  "(val list \<Rightarrow> heap \<Rightarrow> (val \<times> heap) outcome) \<Rightarrow> bool \<Rightarrow> string \<Rightarrow> val \<Rightarrow> val \<Rightarrow> nat \<Rightarrow> heap \<Rightarrow> heap outcome" where
  "extend_element recur deep arrayMode clone e i h =
     (if typeof h e = ''object'' then
        (case alloc h (if isArray h e then empty_array else empty_object) of (type, h1) \<Rightarrow>
           andThen (get_prop h1 clone (Idx i)) (\<lambda>ci.
           andThen (recur [Bool deep, Str arrayMode, if truthy ci then ci else type, e] h1) (\<lambda>(r, h2).
             set_prop h2 clone (Idx i) r)))
      else
        andThen (indexOf h clone e) (\<lambda>found.
          if found = -1 then push h clone e else Return h))"

text \<open>
  One turn of the loop over the source arguments: the value of \<open>target\<close> after it, and
  the heap.
\<close>

definition merge_source ::
  "(val list \<Rightarrow> heap \<Rightarrow> (val \<times> heap) outcome) \<Rightarrow> (bool \<Rightarrow> val \<Rightarrow> val \<Rightarrow> heap \<Rightarrow> (val \<times> heap) outcome) \<Rightarrow>
   bool \<Rightarrow> string \<Rightarrow> val \<Rightarrow> val \<Rightarrow> heap \<Rightarrow> (val \<times> heap) outcome" where
  "merge_source recur ext deep arrayMode target options h =
     (if options \<noteq> Null then
        (if isArray h options \<and> arrayMode \<noteq> ''default'' then
           (case (if truthy target \<and> isArray h target then (target, h) else alloc h empty_array)
            of (clone, h1) \<Rightarrow>
              if arrayMode = ''concat'' then
                (case alloc h1 empty_array of (fresh, h2) \<Rightarrow>
                   andThen (ext deep fresh options h2) (\<lambda>(copied, h3). concat_array h3 clone copied))
              else if arrayMode = ''replace'' then
                (case alloc h1 empty_array of (fresh, h2) \<Rightarrow> ext deep fresh options h2)
              else if arrayMode = ''extend'' then
                andThen (forEach (extend_element recur deep arrayMode clone) options h1)
                  (\<lambda>h2. Return (clone, h2))
              else Return (target, h1))
         else
           andThen (merge_keys (\<lambda>clone copy. recur [Bool deep, Str arrayMode, clone, copy])
                      deep target options (for_in_keys h options) h)
             (\<lambda>h'. Return (target, h')))
      else Return (target, h))"

fun merge_sources ::
  "(val list \<Rightarrow> heap \<Rightarrow> (val \<times> heap) outcome) \<Rightarrow> (bool \<Rightarrow> val \<Rightarrow> val \<Rightarrow> heap \<Rightarrow> (val \<times> heap) outcome) \<Rightarrow>
   bool \<Rightarrow> string \<Rightarrow> val \<Rightarrow> val list \<Rightarrow> heap \<Rightarrow> (val \<times> heap) outcome" where
  "merge_sources recur ext deep arrayMode target [] h = Return (target, h)"
| "merge_sources recur ext deep arrayMode target (options # rest) h =
     andThen (merge_source recur ext deep arrayMode target options h)
       (\<lambda>(target', h'). merge_sources recur ext deep arrayMode target' rest h')"

text \<open>
  The resolution of the leading arguments: \<open>deep\<close>, \<open>arrayMode\<close>, \<open>target\<close>, the index
  \<open>i\<close> of the first source, and the heap.
\<close>

definition resolve_deep :: "val list \<Rightarrow> heap \<Rightarrow> bool \<times> val \<times> nat \<times> heap" where
  "resolve_deep args h0 =
     (case or_empty_object (arg args 0) h0 of (target, h) \<Rightarrow>
        (case target of
           Bool b \<Rightarrow> (case or_empty_object (arg args 1) h of (target', h') \<Rightarrow> (b, target', 2, h'))
         | _ \<Rightarrow> (False, target, 1, h)))"

definition resolve_arrayMode :: "val list \<Rightarrow> val \<Rightarrow> nat \<Rightarrow> heap \<Rightarrow> string \<times> val \<times> nat \<times> heap" where
  "resolve_arrayMode args target i h =
     (case target of
        Str s \<Rightarrow> (case or_empty_object (arg args i) h of (target', h') \<Rightarrow>
                   (array_mode_of s, target', Suc i, h'))
      | _ \<Rightarrow> (''default'', target, i, h))"

definition coerce_target :: "val \<Rightarrow> heap \<Rightarrow> val \<times> heap" where
  "coerce_target target h =
     (if typeof h target \<noteq> ''object'' \<and> \<not> isFunction h target then alloc h empty_object
      else (target, h))"

text \<open>
  The body of \<^verbatim>\<open>$.extendext\<close>, called as a method of \<^verbatim>\<open>$\<close>, the function object at
  address \<open>jq\<close>: \<^verbatim>\<open>this\<close> is \<^verbatim>\<open>$\<close>. \<open>recur\<close> is \<^verbatim>\<open>$.extendext\<close> itself and \<open>ext\<close> is
  \<^verbatim>\<open>$.extend\<close>, both one call deeper.
\<close>

definition extendext_body ::
  "(val list \<Rightarrow> heap \<Rightarrow> (val \<times> heap) outcome) \<Rightarrow> (bool \<Rightarrow> val \<Rightarrow> val \<Rightarrow> heap \<Rightarrow> (val \<times> heap) outcome) \<Rightarrow>
   addr \<Rightarrow> val list \<Rightarrow> heap \<Rightarrow> (val \<times> heap) outcome" where
  "extendext_body recur ext jq args h0 =
     (case resolve_deep args h0 of (deep, target1, i1, h1) \<Rightarrow>
      case resolve_arrayMode args target1 i1 h1 of (arrayMode, target2, i2, h2) \<Rightarrow>
      case coerce_target target2 h2 of (target3, h3) \<Rightarrow>
      case (if i2 = length args then (Ref jq, i2 - 1) else (target3, i2)) of (target, i) \<Rightarrow>
        merge_sources recur ext deep arrayMode target (drop i args) h3)"

text \<open>
  \<^verbatim>\<open>$.extendext(args)\<close> on heap \<open>h\<close>, with at most \<open>n\<close> nested calls: the value returned
  and the heap it leaves.
\<close>

primrec extendext :: "nat \<Rightarrow> addr \<Rightarrow> val list \<Rightarrow> heap \<Rightarrow> (val \<times> heap) outcome" where
  "extendext 0 = (\<lambda>jq args h. OutOfFuel)"
| "extendext (Suc n) = (\<lambda>jq args h. extendext_body (extendext n jq) (jQuery_extend n) jq args h)"

subsection \<open>Shapes of values\<close>

text \<open>The scalars of the data model: strings, numbers, booleans and \<^verbatim>\<open>null\<close>.\<close>

fun scalar :: "val \<Rightarrow> bool" where
  "scalar Undefined = False"
| "scalar (Ref a) = False"
| "scalar v = True"

subsection \<open>Well-formed heaps\<close>

text \<open>
  JavaScript has no dangling reference: every reference held by an argument or stored in
  an object points to an object that exists. \<open>valid n v\<close> says so of a value for a heap of
  \<open>n\<close> objects, \<open>wf_heap\<close> of all that a heap stores. A heap \<open>extends\<close> another when it
  keeps its objects' addresses and kinds (their properties may change). \<open>ok_heap\<close> and
  \<open>ok_result\<close> say of an outcome that it is no throw and that, when it is a return, the heap
  is well-formed and extends the one the computation started from, and the value
  returned is a reference to one of its objects.
\<close>

fun valid :: "nat \<Rightarrow> val \<Rightarrow> bool" where
  "valid n (Ref a) = (a < n)"
| "valid n v = True"

definition valid_elem :: "nat \<Rightarrow> val option \<Rightarrow> bool" where
  "valid_elem n e = (case e of None \<Rightarrow> True | Some v \<Rightarrow> valid n v)"

definition wf_obj :: "nat \<Rightarrow> obj \<Rightarrow> bool" where
  "wf_obj n ob =
     (list_all (valid_elem n) (elems ob) \<and> list_all (\<lambda>p. valid n (snd p)) (named ob))"


definition extends :: "heap \<Rightarrow> heap \<Rightarrow> bool" where
  "extends h h' = (length h \<le> length h' \<and> map kind (take (length h) h') = map kind h)"




section \<open>Basic facts\<close>

lemma andThen_Return_iff:
  "andThen m f = Return y \<longleftrightarrow> (\<exists>x. m = Return x \<and> f x = Return y)"
  by (cases m) auto

lemmas resolve_defs = extendext_body_def resolve_deep_def resolve_arrayMode_def
  coerce_target_def or_empty_object_def arg_def alloc_def isFunction_def

text \<open>
  A turn of the loop over the sources leaves the variable \<open>target\<close> as it is unless the
  source is an array under a non-default array mode; under \<open>extend\<close> it does so too when
  the target is an array already.
\<close>

lemma merge_source_keeps_target:
  assumes "merge_source recur ext deep arrayMode target options h = Return (v, h')"
    and "arrayMode = ''default'' \<or> \<not> isArray h options \<or>
         (arrayMode = ''extend'' \<and> isArray h target)"
  shows "v = target"
  using assms unfolding merge_source_def
  by (cases target) (auto simp: andThen_Return_iff isArray_def alloc_def split: if_splits)

lemma merge_sources_single:
  "merge_sources recur ext deep arrayMode target [options] h =
   merge_source recur ext deep arrayMode target options h"
  by (cases "merge_source recur ext deep arrayMode target options h") auto

lemma merge_sources_default_target:
  "merge_sources recur ext deep ''default'' target sources h = Return (v, h') \<Longrightarrow> v = target"
proof (induction sources arbitrary: target h)
  case Nil
  then show ?case by simp
next
  case (Cons options rest)
  from Cons.prems obtain t1 h1 where
    step: "merge_source recur ext deep ''default'' target options h = Return (t1, h1)"
    and rest: "merge_sources recur ext deep ''default'' t1 rest h1 = Return (v, h')"
    by (auto simp: andThen_Return_iff)
  from step have "t1 = target" by (rule merge_source_keeps_target) simp
  with Cons.IH [OF rest] show ?case by simp
qed

subsection \<open>What the leading arguments resolve to\<close>

lemma extendext_true_target:
  "extendext (Suc n) jq [Bool True, Ref t] h =
   merge_sources (extendext n jq) (jQuery_extend n) True ''default'' (Ref jq) [Ref t] h"
  by (simp add: resolve_defs del: merge_sources.simps)

lemma extendext_false_target:
  "extendext (Suc n) jq [Bool False, Ref t] h =
   merge_sources (extendext n jq) (jQuery_extend n) False ''default'' (Ref (length h)) [Ref t]
     (h @ [empty_object])"
  by (simp add: resolve_defs empty_object_def del: merge_sources.simps)




subsection \<open>Copying an array of scalars\<close>

lemma merge_key_scalar:
  assumes "get_prop h options name = Return v" and "scalar v"
  shows "merge_key recur deep (Ref f) options name h = set_prop h (Ref f) name v"
  using assms unfolding merge_key_def
  by (cases v) (auto simp: isPlainObject_def isArray_def)

lemma set_index_at_end:
  "set_index es (length es) v = es @ [Some v]"
  by (simp add: set_index_def)

text \<open>
  The key loop over the indices from \<open>k\<close> on, when the indices below \<open>k\<close> are copied
  already.
\<close>

lemma copy_flat_elements:
  assumes "f < length h" and "f \<noteq> s" and "h ! s = Obj Array (map Some vs) []"
    and "list_all scalar vs" and "k \<le> length vs"
    and "h ! f = Obj Array (map Some (take k vs)) []"
  shows "merge_keys recur deep (Ref f) (Ref s) (map Idx [k..<length vs]) h =
         Return (h[f := Obj Array (map Some vs) []])"
  using assms
proof (induction "length vs - k" arbitrary: k h)
  case 0
  then have "k = length vs" by simp
  with 0 show ?case by (simp add: list_update_same_conv [THEN iffD2])
next
  case (Suc d)
  then have k: "k < length vs" by simp
  let ?h = "h[f := Obj Array (map Some (take (Suc k) vs)) []]"
  have sc: "scalar (vs ! k)" using Suc.prems(4) k by (simp add: list_all_length)
  have get: "get_prop h (Ref s) (Idx k) = Return (vs ! k)"
    using Suc.prems(3) k by (simp add: get_index_def)
  have len: "length (map Some (take k vs)) = k" using k by simp
  have "set_index (map Some (take k vs)) k (vs ! k) = map Some (take (Suc k) vs)"
    using set_index_at_end [of "map Some (take k vs)" "vs ! k"] k
    by (simp only: len) (simp add: take_Suc_conv_app_nth)
  then have step: "merge_key recur deep (Ref f) (Ref s) (Idx k) h = Return ?h"
    using merge_key_scalar [OF get sc] Suc.prems(6) by simp
  have rest: "merge_keys recur deep (Ref f) (Ref s) (map Idx [Suc k..<length vs]) ?h =
      Return (?h[f := Obj Array (map Some vs) []])"
  proof (rule Suc.hyps(1))
    show "d = length vs - Suc k" using Suc.hyps(2) by simp
    show "f < length ?h" using Suc.prems(1) by simp
    show "f \<noteq> s" by fact
    show "?h ! s = Obj Array (map Some vs) []" using Suc.prems(2,3) by simp
    show "list_all scalar vs" by fact
    show "Suc k \<le> length vs" using k by simp
    show "?h ! f = Obj Array (map Some (take (Suc k) vs)) []" using Suc.prems(1) by simp
  qed
  show ?case using k step rest by (simp add: upt_conv_Cons)
qed

lemma jQuery_extend_flat_array:
  assumes "f < length h" and "f \<noteq> s" and "h ! s = Obj Array (map Some vs) []"
    and "list_all scalar vs" and "h ! f = empty_array"
  shows "jQuery_extend (Suc n) deep (Ref f) (Ref s) h =
         Return (Ref f, h[f := Obj Array (map Some vs) []])"
proof -
  have keys: "for_in_keys h (Ref s) = map Idx [0..<length vs]"
    using assms(3) by (simp add: own_keys_def)
  have "merge_keys (jQuery_extend n deep) deep (Ref f) (Ref s) (map Idx [0..<length vs]) h =
      Return (h[f := Obj Array (map Some vs) []])"
    using assms by (intro copy_flat_elements) (simp_all add: empty_array_def)
  with keys show ?thesis by simp
qed

lemma array_mode_of_concat: "array_mode_of ''concat'' = ''concat''"
  by code_simp

lemma concat_flat_arrays:
  assumes "a < length h" and "s < length h" and "kind (h ! a) = Array"
    and "h ! s = Obj Array (map Some vs) []" and "list_all scalar vs"
  shows "extendext (Suc (Suc n)) jq [Bool True, Str ''concat'', Ref a, Ref s] h =
     Return (Ref (Suc (length h)),
       h @ [Obj Array (map Some vs) [], Obj Array (elems (h ! a) @ map Some vs) []])"
proof -
  let ?h2 = "h @ [empty_array]"
  have ext: "jQuery_extend (Suc n) True (Ref (length h)) (Ref s) ?h2 =
      Return (Ref (length h), ?h2[length h := Obj Array (map Some vs) []])"
    using assms by (intro jQuery_extend_flat_array) (simp_all add: nth_append)
  have arr: "isArray h (Ref s)" using assms(4) by (simp add: isArray_def)
  show ?thesis
    using assms(1,2,3) arr ext
    by (simp add: extendext_body_def resolve_deep_def resolve_arrayMode_def coerce_target_def
        or_empty_object_def arg_def isFunction_def merge_source_def isArray_def alloc_def
        spread_def nth_append array_mode_of_concat)
qed

subsection \<open>Merging an object into itself\<close>














section \<open>No throw on a well-formed heap\<close>

subsection \<open>Validity of values and objects\<close>









lemma wf_obj_empty [simp]: "wf_obj n empty_object" "wf_obj n empty_array"
  by (simp_all add: wf_obj_def empty_object_def empty_array_def)

lemma extends_iff:
  "extends h h' \<longleftrightarrow> length h \<le> length h' \<and> (\<forall>a<length h. kind (h' ! a) = kind (h ! a))"
  by (auto simp: extends_def list_eq_iff_nth_eq)

lemma kind_empty [simp]: "kind empty_object = PlainObject" "kind empty_array = Array"
  by (simp_all add: empty_object_def empty_array_def)





lemma extends_append [simp]: "extends h (h @ xs)"
  by (simp add: extends_iff nth_append)









lemma kind_obj_set [simp]: "kind (obj_set ob k v) = kind ob"
  by (cases k) simp_all



subsection \<open>Sequencing\<close>








subsection \<open>The key loop\<close>





lemma merge_keys_no_keys:
  "options = Undefined \<or> options = Null \<Longrightarrow> for_in_keys h options = []"
  by auto




subsection \<open>The array branch\<close>







subsection \<open>One source, all sources, the call\<close>







subsection \<open>The leading arguments\<close>








subsection \<open>A cyclic source\<close>




subsection \<open>Which reference a call returns\<close>












section \<open>The claims\<close>

subsection \<open>C1: a flag and a target, no source\<close>

text \<open>
  C1 says that \<^verbatim>\<open>merge(flag, target)\<close> is a no-op returning the target. It is not: with
  two arguments of which the first is \<^verbatim>\<open>true\<close>, the index of the first source equals the
  number of arguments, and the code sets \<^verbatim>\<open>target = this\<close> and steps back ("Extend jQuery
  itself if only one argument is passed"). For \<^verbatim>\<open>merge(true, {a:1})\<close>, with \<^verbatim>\<open>$\<close> at address
  0 and the object at address 1, the call returns \<^verbatim>\<open>$\<close> and has written \<^verbatim>\<open>a\<close> into it.
\<close>

theorem flag_and_target_extends_jQuery:
  "extendext 2 0 [Bool True, Ref 1]
     [Obj Function [] [], Obj PlainObject [] [(''a'', Num 1)]] =
   Return (Ref 0,
     [Obj Function [] [(''a'', Num 1)], Obj PlainObject [] [(''a'', Num 1)]])"
  by code_simp

text \<open>
  C1, as amended: a call with a flag and one object returns, when it returns, not that
  object but \<^verbatim>\<open>this\<close> (the jQuery function) when the flag is \<^verbatim>\<open>true\<close>, into which the object
  has been merged as a source; and when the flag is \<^verbatim>\<open>false\<close> the new empty object that
  \<^verbatim>\<open>arguments[0] || {}\<close> puts in the flag's place, the object again being a source. In
  both cases the call is one turn of the loop over the sources, with this target and the
  object as the source.
\<close>

theorem flag_and_target_returns_this:
  "(extendext n jq [Bool d, Ref t] h = Return (v, h') \<longrightarrow>
      v = (if d then Ref jq else Ref (length h))) \<and>
   extendext (Suc n) jq [Bool True, Ref t] h =
     merge_source (extendext n jq) (jQuery_extend n) True ''default'' (Ref jq) (Ref t) h \<and>
   extendext (Suc n) jq [Bool False, Ref t] h =
     merge_source (extendext n jq) (jQuery_extend n) False ''default'' (Ref (length h)) (Ref t)
       (h @ [empty_object])"
proof (intro conjI impI)
  assume run: "extendext n jq [Bool d, Ref t] h = Return (v, h')"
  then obtain k where "n = Suc k" by (cases n) auto
  with run show "v = (if d then Ref jq else Ref (length h))"
    using merge_sources_default_target extendext_true_target extendext_false_target
    by (cases d) metis+
next
  show "extendext (Suc n) jq [Bool True, Ref t] h =
     merge_source (extendext n jq) (jQuery_extend n) True ''default'' (Ref jq) (Ref t) h"
    unfolding extendext_true_target by (rule merge_sources_single)
next
  show "extendext (Suc n) jq [Bool False, Ref t] h =
     merge_source (extendext n jq) (jQuery_extend n) False ''default'' (Ref (length h)) (Ref t)
       (h @ [empty_object])"
    unfolding extendext_false_target by (rule merge_sources_single)
qed

theorem flag_and_target_returns_this_witness:
  "extendext 2 0 [Bool False, Ref 1]
     [Obj Function [] [], Obj PlainObject [] [(''a'', Num 1)]] =
   Return (Ref 2,
     [Obj Function [] [], Obj PlainObject [] [(''a'', Num 1)],
      Obj PlainObject [] [(''a'', Num 1)]]) \<and>
   Ref 2 = (if False then Ref 0
            else Ref (length [Obj Function [] [], Obj PlainObject [] [(''a'', Num 1)]]))"
proof -
  have run: "extendext 2 0 [Bool False, Ref 1]
      [Obj Function [] [], Obj PlainObject [] [(''a'', Num 1)]] =
    Return (Ref 2,
      [Obj Function [] [], Obj PlainObject [] [(''a'', Num 1)],
       Obj PlainObject [] [(''a'', Num 1)]])"
    by code_simp
  from flag_and_target_returns_this
    [where n = 2 and jq = 0 and d = False and t = 1 and v = "Ref 2"
       and h = "[Obj Function [] [], Obj PlainObject [] [(''a'', Num 1)]]"
       and h' = "[Obj Function [] [], Obj PlainObject [] [(''a'', Num 1)],
         Obj PlainObject [] [(''a'', Num 1)]]"]
    run
  show ?thesis by simp
qed

subsection \<open>C2: the value returned\<close>




subsection \<open>C3: the guard of the key loop\<close>

text \<open>
  C3 says that a key is skipped when \<^verbatim>\<open>target[key]\<close> and \<^verbatim>\<open>source[key]\<close> are the same
  reference. The guard of the code is \<^verbatim>\<open>if ( target === copy ) continue\<close>: it compares
  the source's value with the target itself. Below, the target (address 2) and the source
  (address 3) both hold the array at address 1 under \<^verbatim>\<open>a\<close>; the key is not skipped:
  under \<open>concat\<close> the array is concatenated with a copy of itself and \<^verbatim>\<open>target.a\<close> becomes
  the new array \<^verbatim>\<open>[1,1]\<close> at address 5.
\<close>

theorem shared_value_is_not_skipped:
  "get_prop [Obj Function [] [], Obj Array [Some (Num 1)] [],
      Obj PlainObject [] [(''a'', Ref 1)], Obj PlainObject [] [(''a'', Ref 1)]]
     (Ref 2) (Name ''a'') = Return (Ref 1) \<and>
   get_prop [Obj Function [] [], Obj Array [Some (Num 1)] [],
      Obj PlainObject [] [(''a'', Ref 1)], Obj PlainObject [] [(''a'', Ref 1)]]
     (Ref 3) (Name ''a'') = Return (Ref 1) \<and>
   extendext 3 0 [Bool True, Str ''concat'', Ref 2, Ref 3]
     [Obj Function [] [], Obj Array [Some (Num 1)] [],
      Obj PlainObject [] [(''a'', Ref 1)], Obj PlainObject [] [(''a'', Ref 1)]] =
   Return (Ref 2,
     [Obj Function [] [], Obj Array [Some (Num 1)] [],
      Obj PlainObject [] [(''a'', Ref 5)], Obj PlainObject [] [(''a'', Ref 1)],
      Obj Array [Some (Num 1)] [], Obj Array [Some (Num 1), Some (Num 1)] []])"
  by code_simp

text \<open>
  C3, as amended: in the plain key/value merge, a key whose value in the source is the
  very reference of the target is skipped: nothing is read further, nothing is assigned,
  no recursion happens, and the heap stays as it is.
\<close>

theorem guard_skips_the_target_itself:
  "get_prop h options name = Return (Ref t) \<Longrightarrow>
   merge_key recur deep (Ref t) options name h = Return h"
  unfolding merge_key_def by simp

theorem guard_skips_the_target_itself_witness:
  "get_prop [Obj Function [] [], Obj PlainObject [] [(''self'', Ref 1)]] (Ref 1) (Name ''self'') =
     Return (Ref 1) \<and>
   merge_key (\<lambda>clone copy. extendext 3 0 [Bool True, Str ''default'', clone, copy]) True
     (Ref 1) (Ref 1) (Name ''self'') [Obj Function [] [], Obj PlainObject [] [(''self'', Ref 1)]] =
   Return [Obj Function [] [], Obj PlainObject [] [(''self'', Ref 1)]]"
proof -
  have own: "get_prop [Obj Function [] [], Obj PlainObject [] [(''self'', Ref 1)]]
      (Ref 1) (Name ''self'') = Return (Ref 1)"
    by code_simp
  from guard_skips_the_target_itself [OF own] own show ?thesis by simp
qed

subsection \<open>C4: array mode extend\<close>

text \<open>
  C4: the two examples of the claim hold. \<^verbatim>\<open>merge(true,'extend',{a:[1,2]},{a:[2,3]})\<close>
  leaves \<^verbatim>\<open>[1,2,3]\<close> in the target's array (address 1), and
  \<^verbatim>\<open>merge(true,'extend',{a:[{x:1}]},{a:[{y:2}]})\<close> leaves \<^verbatim>\<open>{x:1,y:2}\<close> in the object that is
  the element of the target's array (address 1). The rule of the claim, an object-like
  element "is recursively merged into clone[i] with the same deep/arrayMode settings",
  fails when \<open>deep\<close> is false: the callback passes the arguments
  \<^verbatim>\<open>(false, 'extend', clone[i] || type, e)\<close>, the recursive call reads \<^verbatim>\<open>arguments[0] || {}\<close>
  as a new empty target and takes all that follows as sources, the string \<^verbatim>\<open>'extend'\<close>
  first. For \<^verbatim>\<open>$.extendext('extend', [{x:1}], [{y:2}])\<close> the element \<^verbatim>\<open>{x:1}\<close> (address 2) is
  not merged into: slot 0 of the target gets the new object at address 6, which holds
  the six characters of \<^verbatim>\<open>'extend'\<close> under the keys 0 to 5 besides \<^verbatim>\<open>x\<close> and \<^verbatim>\<open>y\<close>.
\<close>

theorem extend_examples_and_shallow_recursion:
  "extendext 2 0 [Bool True, Str ''extend'', Ref 2, Ref 4]
     [Obj Function [] [], Obj Array [Some (Num 1), Some (Num 2)] [],
      Obj PlainObject [] [(''a'', Ref 1)], Obj Array [Some (Num 2), Some (Num 3)] [],
      Obj PlainObject [] [(''a'', Ref 3)]] =
   Return (Ref 2,
     [Obj Function [] [], Obj Array [Some (Num 1), Some (Num 2), Some (Num 3)] [],
      Obj PlainObject [] [(''a'', Ref 1)], Obj Array [Some (Num 2), Some (Num 3)] [],
      Obj PlainObject [] [(''a'', Ref 3)]]) \<and>
   extendext 3 0 [Bool True, Str ''extend'', Ref 3, Ref 6]
     [Obj Function [] [], Obj PlainObject [] [(''x'', Num 1)], Obj Array [Some (Ref 1)] [],
      Obj PlainObject [] [(''a'', Ref 2)], Obj PlainObject [] [(''y'', Num 2)],
      Obj Array [Some (Ref 4)] [], Obj PlainObject [] [(''a'', Ref 5)]] =
   Return (Ref 3,
     [Obj Function [] [], Obj PlainObject [] [(''x'', Num 1), (''y'', Num 2)],
      Obj Array [Some (Ref 1)] [], Obj PlainObject [] [(''a'', Ref 2)],
      Obj PlainObject [] [(''y'', Num 2)], Obj Array [Some (Ref 4)] [],
      Obj PlainObject [] [(''a'', Ref 5)], Obj PlainObject [] []]) \<and>
   extendext 2 0 [Str ''extend'', Ref 1, Ref 3]
     [Obj Function [] [], Obj Array [Some (Ref 2)] [], Obj PlainObject [] [(''x'', Num 1)],
      Obj Array [Some (Ref 4)] [], Obj PlainObject [] [(''y'', Num 2)]] =
   Return (Ref 1,
     [Obj Function [] [], Obj Array [Some (Ref 6)] [], Obj PlainObject [] [(''x'', Num 1)],
      Obj Array [Some (Ref 4)] [], Obj PlainObject [] [(''y'', Num 2)], Obj PlainObject [] [],
      Obj PlainObject
        [Some (Str ''e''), Some (Str ''x''), Some (Str ''t''), Some (Str ''e''),
         Some (Str ''n''), Some (Str ''d'')]
        [(''x'', Num 1), (''y'', Num 2)]])"
  by code_simp

subsection \<open>C5: array mode concat\<close>

text \<open>
  C5: with \<open>deep = true\<close> and array mode \<open>concat\<close>, an array target and an array source of
  scalars give a new array: the elements of the target followed by those of a copy of
  the source, which is a new array too; the target and the source stay as they were.
  \<^verbatim>\<open>merge(true, 'concat', {a:[1,2]}, {a:[2,3]})\<close> returns the target (address 2) with
  \<^verbatim>\<open>[1,2,2,3]\<close> (address 6) under \<^verbatim>\<open>a\<close>. An object inside the source array is cloned: in
  the last example the result \<^verbatim>\<open>[1, {x:1}]\<close> (address 8) holds the copy at address 7, not
  the source's own object at address 3.
\<close>

theorem concat_appends_deep_copy:
  "(a < length h \<and> s < length h \<and> kind (h ! a) = Array \<and>
    h ! s = Obj Array (map Some vs) [] \<and> list_all scalar vs \<longrightarrow>
    extendext (Suc (Suc n)) jq [Bool True, Str ''concat'', Ref a, Ref s] h =
      Return (Ref (Suc (length h)),
        h @ [Obj Array (map Some vs) [], Obj Array (elems (h ! a) @ map Some vs) []])) \<and>
   extendext 3 0 [Bool True, Str ''concat'', Ref 2, Ref 4]
     [Obj Function [] [], Obj Array [Some (Num 1), Some (Num 2)] [],
      Obj PlainObject [] [(''a'', Ref 1)], Obj Array [Some (Num 2), Some (Num 3)] [],
      Obj PlainObject [] [(''a'', Ref 3)]] =
   Return (Ref 2,
     [Obj Function [] [], Obj Array [Some (Num 1), Some (Num 2)] [],
      Obj PlainObject [] [(''a'', Ref 6)], Obj Array [Some (Num 2), Some (Num 3)] [],
      Obj PlainObject [] [(''a'', Ref 3)], Obj Array [Some (Num 2), Some (Num 3)] [],
      Obj Array [Some (Num 1), Some (Num 2), Some (Num 2), Some (Num 3)] []]) \<and>
   extendext 4 0 [Bool True, Str ''concat'', Ref 2, Ref 5]
     [Obj Function [] [], Obj Array [Some (Num 1)] [], Obj PlainObject [] [(''a'', Ref 1)],
      Obj PlainObject [] [(''x'', Num 1)], Obj Array [Some (Ref 3)] [],
      Obj PlainObject [] [(''a'', Ref 4)]] =
   Return (Ref 2,
     [Obj Function [] [], Obj Array [Some (Num 1)] [], Obj PlainObject [] [(''a'', Ref 8)],
      Obj PlainObject [] [(''x'', Num 1)], Obj Array [Some (Ref 3)] [],
      Obj PlainObject [] [(''a'', Ref 4)], Obj Array [Some (Ref 7)] [],
      Obj PlainObject [] [(''x'', Num 1)], Obj Array [Some (Num 1), Some (Ref 7)] []])"
proof (intro conjI impI)
  assume "a < length h \<and> s < length h \<and> kind (h ! a) = Array \<and>
    h ! s = Obj Array (map Some vs) [] \<and> list_all scalar vs"
  then show "extendext (Suc (Suc n)) jq [Bool True, Str ''concat'', Ref a, Ref s] h =
      Return (Ref (Suc (length h)),
        h @ [Obj Array (map Some vs) [], Obj Array (elems (h ! a) @ map Some vs) []])"
    by (intro concat_flat_arrays) simp_all
next
  show "extendext 3 0 [Bool True, Str ''concat'', Ref 2, Ref 4]
     [Obj Function [] [], Obj Array [Some (Num 1), Some (Num 2)] [],
      Obj PlainObject [] [(''a'', Ref 1)], Obj Array [Some (Num 2), Some (Num 3)] [],
      Obj PlainObject [] [(''a'', Ref 3)]] =
   Return (Ref 2,
     [Obj Function [] [], Obj Array [Some (Num 1), Some (Num 2)] [],
      Obj PlainObject [] [(''a'', Ref 6)], Obj Array [Some (Num 2), Some (Num 3)] [],
      Obj PlainObject [] [(''a'', Ref 3)], Obj Array [Some (Num 2), Some (Num 3)] [],
      Obj Array [Some (Num 1), Some (Num 2), Some (Num 2), Some (Num 3)] []])"
    by code_simp
next
  show "extendext 4 0 [Bool True, Str ''concat'', Ref 2, Ref 5]
     [Obj Function [] [], Obj Array [Some (Num 1)] [], Obj PlainObject [] [(''a'', Ref 1)],
      Obj PlainObject [] [(''x'', Num 1)], Obj Array [Some (Ref 3)] [],
      Obj PlainObject [] [(''a'', Ref 4)]] =
   Return (Ref 2,
     [Obj Function [] [], Obj Array [Some (Num 1)] [], Obj PlainObject [] [(''a'', Ref 8)],
      Obj PlainObject [] [(''x'', Num 1)], Obj Array [Some (Ref 3)] [],
      Obj PlainObject [] [(''a'', Ref 4)], Obj Array [Some (Ref 7)] [],
      Obj PlainObject [] [(''x'', Num 1)], Obj Array [Some (Num 1), Some (Ref 7)] []])"
    by code_simp
qed

theorem concat_appends_deep_copy_witness:
  "(1::nat) < length [Obj Function [] [], Obj Array [Some (Num 7)] [],
      Obj Array [Some (Str ''b''), Some Null] []] \<and>
   (2::nat) < length [Obj Function [] [], Obj Array [Some (Num 7)] [],
      Obj Array [Some (Str ''b''), Some Null] []] \<and>
   kind ([Obj Function [] [], Obj Array [Some (Num 7)] [],
      Obj Array [Some (Str ''b''), Some Null] []] ! 1) = Array \<and>
   [Obj Function [] [], Obj Array [Some (Num 7)] [],
      Obj Array [Some (Str ''b''), Some Null] []] ! 2 = Obj Array (map Some [Str ''b'', Null]) [] \<and>
   list_all scalar [Str ''b'', Null] \<and>
   extendext 2 0 [Bool True, Str ''concat'', Ref 1, Ref 2]
     [Obj Function [] [], Obj Array [Some (Num 7)] [],
      Obj Array [Some (Str ''b''), Some Null] []] =
   Return (Ref 4,
     [Obj Function [] [], Obj Array [Some (Num 7)] [],
      Obj Array [Some (Str ''b''), Some Null] [],
      Obj Array [Some (Str ''b''), Some Null] [],
      Obj Array [Some (Num 7), Some (Str ''b''), Some Null] []])"
  using concat_appends_deep_copy
    [where h = "[Obj Function [] [], Obj Array [Some (Num 7)] [],
        Obj Array [Some (Str ''b''), Some Null] []]"
       and a = 1 and s = 2 and vs = "[Str ''b'', Null]" and n = 0 and jq = 0]
  by (simp add: numeral_2_eq_2)

subsection \<open>C6: the target as its own source\<close>




subsection \<open>C7: no aliasing under deep\<close>




subsection \<open>C8: undefined values\<close>

text \<open>
  C8: a key whose value in the source is \<^verbatim>\<open>undefined\<close> is not assigned: the turn of the
  key loop leaves the heap as it is, whatever the target holds under the key. And
  \<^verbatim>\<open>merge(false, {a:1}, {a: undefined})\<close> returns an object \<^verbatim>\<open>{a:1}\<close>: the one at address 3,
  which \<^verbatim>\<open>arguments[0] || {}\<close> created in the place of \<^verbatim>\<open>false\<close> and into which both objects
  were merged as sources; \<^verbatim>\<open>a\<close> got the value 1 from the first and kept it.
\<close>

theorem undefined_never_overwrites:
  "(get_prop h options name = Return Undefined \<longrightarrow>
      merge_key recur deep (Ref t) options name h = Return h) \<and>
   extendext 2 0 [Bool False, Ref 1, Ref 2]
     [Obj Function [] [], Obj PlainObject [] [(''a'', Num 1)],
      Obj PlainObject [] [(''a'', Undefined)]] =
   Return (Ref 3,
     [Obj Function [] [], Obj PlainObject [] [(''a'', Num 1)],
      Obj PlainObject [] [(''a'', Undefined)], Obj PlainObject [] [(''a'', Num 1)]])"
proof (intro conjI impI)
  assume "get_prop h options name = Return Undefined"
  then show "merge_key recur deep (Ref t) options name h = Return h"
    unfolding merge_key_def by simp
next
  show "extendext 2 0 [Bool False, Ref 1, Ref 2]
     [Obj Function [] [], Obj PlainObject [] [(''a'', Num 1)],
      Obj PlainObject [] [(''a'', Undefined)]] =
   Return (Ref 3,
     [Obj Function [] [], Obj PlainObject [] [(''a'', Num 1)],
      Obj PlainObject [] [(''a'', Undefined)], Obj PlainObject [] [(''a'', Num 1)]])"
    by code_simp
qed

theorem undefined_never_overwrites_witness:
  "get_prop [Obj Function [] [], Obj PlainObject [] [(''a'', Num 1)],
      Obj PlainObject [] [(''a'', Undefined)]] (Ref 2) (Name ''a'') = Return Undefined \<and>
   merge_key (\<lambda>clone copy. extendext 1 0 [Bool False, Str ''default'', clone, copy]) False
     (Ref 1) (Ref 2) (Name ''a'')
     [Obj Function [] [], Obj PlainObject [] [(''a'', Num 1)],
      Obj PlainObject [] [(''a'', Undefined)]] =
   Return [Obj Function [] [], Obj PlainObject [] [(''a'', Num 1)],
      Obj PlainObject [] [(''a'', Undefined)]]"
proof -
  have undef: "get_prop [Obj Function [] [], Obj PlainObject [] [(''a'', Num 1)],
      Obj PlainObject [] [(''a'', Undefined)]] (Ref 2) (Name ''a'') = Return Undefined"
    by code_simp
  from undefined_never_overwrites
    [where h = "[Obj Function [] [], Obj PlainObject [] [(''a'', Num 1)],
        Obj PlainObject [] [(''a'', Undefined)]]" and options = "Ref 2" and name = "Name ''a''"
       and t = 1 and deep = False
       and recur = "\<lambda>clone copy. extendext 1 0 [Bool False, Str ''default'', clone, copy]"]
    undef
  show ?thesis by simp
qed

subsection \<open>C9: no error for any input\<close>




subsection \<open>C10: a null element under extend\<close>

text \<open>
  C10 says that a \<^verbatim>\<open>null\<close> element at index \<open>i\<close> of the source leaves the slot as the
  clone's element at \<open>i\<close> whenever that is present. A present element that is no object
  does not stay: the recursive call takes it as target and coerces it to a new empty
  object. For \<^verbatim>\<open>merge(true, 'extend', [5], [null])\<close> the result is \<^verbatim>\<open>[{}]\<close>: slot 0 of the
  target (address 1) holds the new object at address 4.
\<close>

theorem null_element_replaces_scalar:
  "extendext 3 0 [Bool True, Str ''extend'', Ref 1, Ref 2]
     [Obj Function [] [], Obj Array [Some (Num 5)] [], Obj Array [Some Null] []] =
   Return (Ref 1,
     [Obj Function [] [], Obj Array [Some (Ref 4)] [], Obj Array [Some Null] [],
      Obj PlainObject [] [], Obj PlainObject [] []])"
  by code_simp

text \<open>
  C10, as amended: with \<open>deep = true\<close>, a \<^verbatim>\<open>null\<close> element at index \<open>i\<close> of the source is
  treated as an object: nothing is appended to the clone and no search is made; the
  recursive call (one level of recursion is enough for it to return) skips its only source,
  and slot \<open>i\<close> of the clone ends up as the element it held when that is a reference to an
  object, and as a new empty object otherwise (no element, a hole, or a primitive).
\<close>

theorem null_element_in_extend_mode:
  "extend_element (extendext (Suc n) jq) True ''extend'' (Ref c) Null i h =
     (let h1 = h @ [empty_object]; ci = obj_get (h1 ! c) (Idx i) in
      case ci of
        Ref r \<Rightarrow> Return (h1[c := obj_set (h1 ! c) (Idx i) (Ref r)])
      | _ \<Rightarrow>
          if truthy ci
          then Return ((h1 @ [empty_object])
                 [c := obj_set ((h1 @ [empty_object]) ! c) (Idx i) (Ref (Suc (length h)))])
          else Return (h1[c := obj_set (h1 ! c) (Idx i) (Ref (length h))]))"
  by (simp add: extend_element_def resolve_defs merge_source_def isArray_def Let_def
      empty_object_def split: val.splits)

end
